theory Spec2Isabelle
  imports Main "HOL-Library.Word"
begin

section \<open>Python values as decoded from JSON\<close>

text \<open>
  The script \<^verbatim>\<open>scripts/ha-sync.py\<close> handles whatever \<^verbatim>\<open>resp.json()\<close> hands back: any
  JSON value. A float is carried as its IEEE-754 binary64 bit pattern; a JSON object as
  the association list of its keys (the first binding of a key is the dict's entry).
\<close>

datatype pyval =
    PNone
  | PBool bool
  | PInt int
  | PFloat "64 word"
  | PStr string
  | PList "pyval list"
  | PDict "(string \<times> pyval) list"

text \<open>Python truth value testing, as used by \<^verbatim>\<open>not state\<close> and \<^verbatim>\<open>... or entity_id\<close>.\<close>

fun truthy :: "pyval \<Rightarrow> bool" where
  "truthy PNone = False"
| "truthy (PBool b) = b"
| "truthy (PInt i) = (i \<noteq> 0)"
| "truthy (PFloat w) = (w \<noteq> 0 \<and> w \<noteq> 0x8000000000000000)"
| "truthy (PStr s) = (s \<noteq> [])"
| "truthy (PList xs) = (xs \<noteq> [])"
| "truthy (PDict kvs) = (kvs \<noteq> [])"

text \<open>
  The exceptions that can travel through the script. \<^verbatim>\<open>RequestException\<close> stands for
  \<^verbatim>\<open>requests.RequestException\<close> and all its subclasses and carries \<^verbatim>\<open>str(e)\<close>;
  \<^verbatim>\<open>CalledProcessError\<close> carries the return code and the captured error stream.
\<close>

datatype py_exn =
    RequestException string
  | CalledProcessError int string
  | FileNotFoundError
  | AttributeError
  | TypeError
  | OtherException string

text \<open>\<^verbatim>\<open>d.get(k, default)\<close>: only a dict has the method.\<close>

fun py_get :: "pyval \<Rightarrow> string \<Rightarrow> pyval \<Rightarrow> py_exn + pyval" where
  "py_get (PDict kvs) k d = Inr (case map_of kvs k of Some v \<Rightarrow> v | None \<Rightarrow> d)"
| "py_get _ k d = Inl AttributeError"

subsection \<open>Rendering\<close>

function str_nat :: "nat \<Rightarrow> string" where
  "str_nat n =
     (if n < 10 then [''0123456789'' ! n]
      else str_nat (n div 10) @ [''0123456789'' ! (n mod 10)])"
  by pat_completeness auto
termination
  by (relation "measure (\<lambda>n. n)") auto

declare str_nat.simps [simp del]

definition str_int :: "int \<Rightarrow> string" where
  "str_int i = (if i < 0 then CHR ''-'' # str_nat (nat (- i)) else str_nat (nat i))"

text \<open>
  \<^verbatim>\<open>str(v)\<close>, which is also what an f-string field with no format spec produces. The
  rendering of floats and of containers is left to the parameter \<open>r\<close>.
\<close>

fun py_str :: "(pyval \<Rightarrow> string) \<Rightarrow> pyval \<Rightarrow> string" where
  "py_str r PNone = ''None''"
| "py_str r (PBool b) = (if b then ''True'' else ''False'')"
| "py_str r (PInt i) = str_int i"
| "py_str r (PStr s) = s"
| "py_str r v = r v"

text \<open>\<^verbatim>\<open>s.rstrip(c)\<close> for a one-character argument: every trailing \<open>c\<close> goes.\<close>

definition rstrip :: "char \<Rightarrow> string \<Rightarrow> string" where
  "rstrip c s = rev (dropWhile (\<lambda>x. x = c) (rev s))"

section \<open>The outside world\<close>

text \<open>
  What the script does to the outside is recorded as a trace of events, in order:
  a line printed, an HTTP GET attempted (URL and \<^verbatim>\<open>Authorization\<close> header), a process
  start attempted (its argument vector). An attempt is recorded whether or not it
  succeeds.
\<close>

datatype event =
    Print string
  | HttpGet string string
  | RunProcess "string list"

record response =
  status_code :: int
  json :: "py_exn + pyval"

text \<open>
  The collaborators are parameters. The world \<open>'w\<close> is whatever state the network and
  the position tool keep; each call may change it. \<open>requests_get\<close> is
  \<^verbatim>\<open>requests.get(url, headers=..., timeout=10)\<close>: it raises or yields a response whose
  \<open>json\<close> field is what \<^verbatim>\<open>resp.json()\<close> will return or raise. \<open>spawn\<close> starts the
  process and waits for it: it raises, or yields the return code and the captured
  error stream. \<open>str_other\<close> renders floats and containers.
\<close>

record 'w env =
  requests_get :: "'w \<Rightarrow> string \<Rightarrow> string \<Rightarrow> (py_exn + response) \<times> 'w"
  spawn :: "'w \<Rightarrow> string list \<Rightarrow> (py_exn + int \<times> string) \<times> 'w"
  str_other :: "pyval \<Rightarrow> string"

record 'w st =
  world :: 'w
  trace :: "event list"

definition emit :: "event \<Rightarrow> 'w st \<Rightarrow> 'w st" where
  "emit e s = s\<lparr>trace := trace s @ [e]\<rparr>"

section \<open>The script\<close>

definition ENTITIES :: "(string \<times> string) list" where
  "ENTITIES = [(''person.harper'', ''harper'')]"

definition POSITION_BIN :: string where
  "POSITION_BIN = ''position''"

subsection \<open>get_entity_state\<close>

text \<open>The \<^verbatim>\<open>except requests.RequestException\<close> clause; anything else propagates.\<close>

fun request_handler :: "string \<Rightarrow> py_exn \<Rightarrow> 'w st \<Rightarrow> (py_exn + pyval) \<times> 'w st" where
  "request_handler entity_id (RequestException m) s =
     (Inr PNone, emit (Print (''Request error for '' @ entity_id @ '': '' @ m)) s)"
| "request_handler entity_id e s = (Inl e, s)"

definition get_entity_state ::
  "'w env \<Rightarrow> string \<Rightarrow> string \<Rightarrow> string \<Rightarrow> 'w st \<Rightarrow> (py_exn + pyval) \<times> 'w st" where
  "get_entity_state env hass_url hass_token entity_id s =
     (let url = hass_url @ ''/api/states/'' @ entity_id;
          auth = ''Bearer '' @ hass_token;
          (r, w') = requests_get env (world s) url auth;
          s1 = (emit (HttpGet url auth) s)\<lparr>world := w'\<rparr>
      in case r of
           Inl e \<Rightarrow> request_handler entity_id e s1
         | Inr resp \<Rightarrow>
             if status_code resp \<noteq> 200
             then (Inr PNone,
                   emit (Print (''Failed to fetch '' @ entity_id @ '': HTTP '' @
                                str_int (status_code resp))) s1)
             else (case json resp of
                     Inl e \<Rightarrow> request_handler entity_id e s1
                   | Inr v \<Rightarrow> (Inr v, s1)))"

subsection \<open>sync_entity\<close>

text \<open>
  \<^verbatim>\<open>subprocess.run(args, check=True, capture_output=True, text=True)\<close>: an argument
  that is not a string is a \<^verbatim>\<open>TypeError\<close> before anything is started; a non-zero
  return code becomes \<^verbatim>\<open>CalledProcessError\<close>.
\<close>

fun str_arg :: "pyval \<Rightarrow> string option" where
  "str_arg (PStr s) = Some s"
| "str_arg _ = None"

definition subprocess_run :: "'w env \<Rightarrow> pyval list \<Rightarrow> 'w st \<Rightarrow> (py_exn + unit) \<times> 'w st" where
  "subprocess_run env args s =
     (case those (map str_arg args) of
        None \<Rightarrow> (Inl TypeError, s)
      | Some argv \<Rightarrow>
          (let (r, w') = spawn env (world s) argv;
               s1 = (emit (RunProcess argv) s)\<lparr>world := w'\<rparr>
           in case r of
                Inl e \<Rightarrow> (Inl e, s1)
              | Inr (rc, err) \<Rightarrow>
                  if rc \<noteq> 0 then (Inl (CalledProcessError rc err), s1) else (Inr (), s1)))"

text \<open>The \<^verbatim>\<open>try\<close> statement of \<^verbatim>\<open>sync_entity\<close> with its two \<^verbatim>\<open>except\<close> clauses.\<close>

definition add_position ::
  "'w env \<Rightarrow> string \<Rightarrow> pyval \<Rightarrow> pyval \<Rightarrow> pyval \<Rightarrow> 'w st \<Rightarrow> (py_exn + bool) \<times> 'w st" where
  "add_position env position_name lat lng label s =
     (case subprocess_run env
             [PStr POSITION_BIN, PStr ''add'', PStr position_name,
              PStr ''--lat'', PStr (py_str (str_other env) lat),
              PStr ''--lng'', PStr (py_str (str_other env) lng),
              PStr ''--label'', label] s of
        (Inr u, s1) \<Rightarrow>
          (Inr True,
           emit (Print (''Synced '' @ position_name @ '': '' @ py_str (str_other env) label @
                        '' ('' @ py_str (str_other env) lat @ '', '' @
                        py_str (str_other env) lng @ '')'')) s1)
      | (Inl (CalledProcessError rc err), s1) \<Rightarrow>
          (Inr False, emit (Print (''Failed to add position for '' @ position_name @ '': '' @ err)) s1)
      | (Inl FileNotFoundError, s1) \<Rightarrow>
          (Inr False, emit (Print (''position binary not found: '' @ POSITION_BIN)) s1)
      | (Inl e, s1) \<Rightarrow> (Inl e, s1))"

definition sync_entity ::
  "'w env \<Rightarrow> string \<Rightarrow> string \<Rightarrow> string \<Rightarrow> string \<Rightarrow> 'w st \<Rightarrow> (py_exn + bool) \<times> 'w st" where
  "sync_entity env hass_url hass_token entity_id position_name s =
     (case get_entity_state env hass_url hass_token entity_id s of
        (Inl e, s1) \<Rightarrow> (Inl e, s1)
      | (Inr state, s1) \<Rightarrow>
          if \<not> truthy state then (Inr False, s1)
          else
            (case py_get state ''attributes'' (PDict []) of
               Inl e \<Rightarrow> (Inl e, s1)
             | Inr attrs \<Rightarrow>
            (case py_get attrs ''latitude'' PNone of
               Inl e \<Rightarrow> (Inl e, s1)
             | Inr lat \<Rightarrow>
            (case py_get attrs ''longitude'' PNone of
               Inl e \<Rightarrow> (Inl e, s1)
             | Inr lng \<Rightarrow>
                 if lat = PNone \<or> lng = PNone
                 then (case py_get state ''state'' (PStr ''unknown'') of
                         Inl e \<Rightarrow> (Inl e, s1)
                       | Inr sv \<Rightarrow>
                           (Inr False,
                            emit (Print (''No location for '' @ entity_id @ '' (state: '' @
                                         py_str (str_other env) sv @ '')'')) s1))
                 else (case py_get attrs ''friendly_name'' PNone of
                         Inl e \<Rightarrow> (Inl e, s1)
                       | Inr fn \<Rightarrow>
                           add_position env position_name lat lng
                             (if truthy fn then fn else PStr entity_id) s1)))))"

subsection \<open>main\<close>

text \<open>
  The \<^verbatim>\<open>for\<close> loop of \<^verbatim>\<open>main\<close> over \<^verbatim>\<open>ENTITIES.items()\<close>, with \<^verbatim>\<open>success_count\<close>
  as the accumulator. An exception out of \<^verbatim>\<open>sync_entity\<close> ends the loop.
\<close>

fun sync_loop ::
  "'w env \<Rightarrow> string \<Rightarrow> string \<Rightarrow> (string \<times> string) list \<Rightarrow> nat \<Rightarrow> 'w st \<Rightarrow> (py_exn + nat) \<times> 'w st" where
  "sync_loop env hass_url hass_token [] success_count s = (Inr success_count, s)"
| "sync_loop env hass_url hass_token ((entity_id, position_name) # rest) success_count s =
     (case sync_entity env hass_url hass_token entity_id position_name s of
        (Inl e, s1) \<Rightarrow> (Inl e, s1)
      | (Inr ok, s1) \<Rightarrow>
          sync_loop env hass_url hass_token rest
            (if ok then success_count + 1 else success_count) s1)"

definition summary :: "nat \<Rightarrow> nat \<Rightarrow> string" where
  "summary success_count n = ''Synced '' @ str_nat success_count @ ''/'' @ str_nat n @ '' entities''"

definition config_error :: "'w st \<Rightarrow> (py_exn + int) \<times> 'w st" where
  "config_error s =
     (Inr 1, emit (Print ''Error: HASS_URL and HASS_TOKEN must be set in .env or environment'') s)"

text \<open>
  \<^verbatim>\<open>main\<close>, with the module constant \<^verbatim>\<open>ENTITIES\<close> as the parameter \<open>ents\<close> and
  \<^verbatim>\<open>os.environ\<close> as it stands after the two \<^verbatim>\<open>load_dotenv\<close> calls as \<open>environ\<close>.
  The result is the exit code, or the exception that ends the process.
\<close>

definition main_on ::
  "(string \<times> string) list \<Rightarrow> 'w env \<Rightarrow> (string \<rightharpoonup> string) \<Rightarrow> 'w st \<Rightarrow> (py_exn + int) \<times> 'w st" where
  "main_on ents env environ s =
     (case (environ ''HASS_URL'', environ ''HASS_TOKEN'') of
        (Some hass_url, Some hass_token) \<Rightarrow>
          if hass_url = [] \<or> hass_token = [] then config_error s
          else
            (case sync_loop env (rstrip CHR ''/'' hass_url) hass_token ents 0 s of
               (Inl e, s1) \<Rightarrow> (Inl e, s1)
             | (Inr success_count, s1) \<Rightarrow>
                 (Inr (if success_count = length ents then 0 else 1),
                  emit (Print (summary success_count (length ents))) s1))
      | _ \<Rightarrow> config_error s)"

definition main :: "'w env \<Rightarrow> (string \<rightharpoonup> string) \<Rightarrow> 'w st \<Rightarrow> (py_exn + int) \<times> 'w st" where
  "main = main_on ENTITIES"

text \<open>A run starts in some world with nothing done yet.\<close>

definition start :: "'w \<Rightarrow> 'w st" where
  "start w = \<lparr>world = w, trace = []\<rparr>"

section \<open>Vocabulary of the properties\<close>

subsection \<open>Reading a trace\<close>

text \<open>
  The fetches of a run and the argument vectors of the processes it asked for, in order.
\<close>

fun http_of :: "event \<Rightarrow> (string \<times> string) option" where
  "http_of (HttpGet url auth) = Some (url, auth)"
| "http_of _ = None"

fun argv_of :: "event \<Rightarrow> string list option" where
  "argv_of (RunProcess argv) = Some argv"
| "argv_of _ = None"

definition fetches :: "event list \<Rightarrow> (string \<times> string) list" where
  "fetches tr = List.map_filter http_of tr"

definition process_calls :: "event list \<Rightarrow> string list list" where
  "process_calls tr = List.map_filter argv_of tr"

text \<open>
  A summary line: a printed line that starts with \<^verbatim>\<open>Synced \<close> and ends with
  \<^verbatim>\<open> entities\<close>.
\<close>

fun is_summary :: "event \<Rightarrow> bool" where
  "is_summary (Print m) = (take 7 m = ''Synced '' \<and> take 9 (rev m) = rev '' entities'')"
| "is_summary _ = False"

text \<open>
  The fetch that belongs to an entry of the mapping, and the argument vector the
  position tool is started with.
\<close>

definition fetch_of :: "string \<Rightarrow> string \<Rightarrow> string \<times> string \<Rightarrow> string \<times> string" where
  "fetch_of hass_url hass_token ent =
     (hass_url @ ''/api/states/'' @ fst ent, ''Bearer '' @ hass_token)"

definition recorder_argv :: "'w env \<Rightarrow> string \<Rightarrow> pyval \<Rightarrow> pyval \<Rightarrow> string \<Rightarrow> string list" where
  "recorder_argv env position_name lat lng label =
     [POSITION_BIN, ''add'', position_name,
      ''--lat'', py_str (str_other env) lat,
      ''--lng'', py_str (str_other env) lng,
      ''--label'', label]"

text \<open>
  The outcome of each entity's sync in the order of the loop: \<open>Inr True\<close> synced,
  \<open>Inr False\<close> failed, \<open>Inl e\<close> raised (and the list ends there, as the loop does).
\<close>

fun sync_results ::
  "'w env \<Rightarrow> string \<Rightarrow> string \<Rightarrow> (string \<times> string) list \<Rightarrow> 'w st \<Rightarrow> (py_exn + bool) list" where
  "sync_results env hass_url hass_token [] s = []"
| "sync_results env hass_url hass_token ((entity_id, position_name) # rest) s =
     (case sync_entity env hass_url hass_token entity_id position_name s of
        (Inl e, s1) \<Rightarrow> [Inl e]
      | (Inr ok, s1) \<Rightarrow> Inr ok # sync_results env hass_url hass_token rest s1)"

subsection \<open>Fetching\<close>




subsection \<open>Two runs\<close>

text \<open>
  Two worlds, possibly of different kinds, that stay related by \<open>R\<close> answer alike:
  the same response to the same GET, the same result for the same process, the same
  rendering of values. Two states are alike when their worlds are related and they
  have done the same so far.
\<close>

definition same_responses :: "('a \<Rightarrow> 'b \<Rightarrow> bool) \<Rightarrow> 'a env \<Rightarrow> 'b env \<Rightarrow> bool" where
  "same_responses R e1 e2 =
     (str_other e1 = str_other e2 \<and>
      (\<forall>w1 w2 url auth. R w1 w2 \<longrightarrow>
         fst (requests_get e1 w1 url auth) = fst (requests_get e2 w2 url auth) \<and>
         R (snd (requests_get e1 w1 url auth)) (snd (requests_get e2 w2 url auth))) \<and>
      (\<forall>w1 w2 argv. R w1 w2 \<longrightarrow>
         fst (spawn e1 w1 argv) = fst (spawn e2 w2 argv) \<and>
         R (snd (spawn e1 w1 argv)) (snd (spawn e2 w2 argv))))"

definition same_st :: "('a \<Rightarrow> 'b \<Rightarrow> bool) \<Rightarrow> 'a st \<Rightarrow> 'b st \<Rightarrow> bool" where
  "same_st R s1 s2 = (R (world s1) (world s2) \<and> trace s1 = trace s2)"

definition agree :: "('a \<Rightarrow> 'b \<Rightarrow> bool) \<Rightarrow> 'r \<times> 'a st \<Rightarrow> 'r \<times> 'b st \<Rightarrow> bool" where
  "agree R x y = (fst x = fst y \<and> same_st R (snd x) (snd y))"

subsection \<open>Concrete worlds\<close>

text \<open>
  A world that answers each GET by its URL and each process start by its argument
  vector, and counts the calls made to it; and one that keeps no state at all.
\<close>

definition scripted_env ::
  "(string \<Rightarrow> py_exn + response) \<Rightarrow> (string list \<Rightarrow> py_exn + int \<times> string) \<Rightarrow>
   (pyval \<Rightarrow> string) \<Rightarrow> nat env" where
  "scripted_env answer run render =
     \<lparr>requests_get = (\<lambda>w url auth. (answer url, Suc w)),
      spawn = (\<lambda>w argv. (run argv, Suc w)),
      str_other = render\<rparr>"

definition stateless_env ::
  "(string \<Rightarrow> py_exn + response) \<Rightarrow> (string list \<Rightarrow> py_exn + int \<times> string) \<Rightarrow>
   (pyval \<Rightarrow> string) \<Rightarrow> unit env" where
  "stateless_env answer run render =
     \<lparr>requests_get = (\<lambda>w url auth. (answer url, ())),
      spawn = (\<lambda>w argv. (run argv, ())),
      str_other = render\<rparr>"

definition ok_body :: "pyval \<Rightarrow> py_exn + response" where
  "ok_body v = Inr \<lparr>status_code = 200, json = Inr v\<rparr>"

definition configured :: "string \<Rightarrow> string \<Rightarrow> (string \<rightharpoonup> string)" where
  "configured hass_url hass_token = [''HASS_URL'' \<mapsto> hass_url, ''HASS_TOKEN'' \<mapsto> hass_token]"

text \<open>
  A state record with both coordinates, a mapping of two entities, a service that
  knows one entity only, a position tool that exits with a given code.
\<close>

definition located :: "(string \<times> pyval) list \<Rightarrow> pyval" where
  "located extra =
     PDict [(''state'', PStr ''home''),
            (''attributes'', PDict ([(''latitude'', PInt 40), (''longitude'', PInt (- 74))] @ extra))]"

definition two_entities :: "(string \<times> string) list" where
  "two_entities = [(''person.harper'', ''harper''), (''device_tracker.model_3'', ''car'')]"

definition only :: "string \<Rightarrow> string \<Rightarrow> py_exn + response" where
  "only entity_id url =
     (if url = ''http://ha/api/states/'' @ entity_id
      then ok_body (located [(''friendly_name'', PStr ''Harper'')])
      else Inr \<lparr>status_code = 404, json = Inl (RequestException ''not json'')\<rparr>)"

definition exits :: "int \<Rightarrow> string list \<Rightarrow> py_exn + int \<times> string" where
  "exits rc argv = Inr (rc, if rc = 0 then [] else ''boom'')"

definition no_render :: "pyval \<Rightarrow> string" where
  "no_render v = []"

definition after_fetch :: "nat st" where
  "after_fetch = \<lparr>world = 1, trace = [HttpGet ''http://ha/api/states/person.harper'' ''Bearer t'']\<rparr>"

section \<open>Basic facts\<close>

lemma trace_emit [simp]: "trace (emit e s) = trace s @ [e]"
  by (simp add: emit_def)

lemma world_emit [simp]: "world (emit e s) = world s"
  by (simp add: emit_def)

lemma start_simps [simp]: "trace (start w) = []" "world (start w) = w"
  by (simp_all add: start_def)

lemma scripted_env_simps [simp]:
  "requests_get (scripted_env answer run render) w url auth = (answer url, Suc w)"
  "spawn (scripted_env answer run render) w argv = (run argv, Suc w)"
  "str_other (scripted_env answer run render) = render"
  by (simp_all add: scripted_env_def)

lemma fetches_append [simp]: "fetches (xs @ ys) = fetches xs @ fetches ys"
  by (simp add: fetches_def map_filter_def)

lemma fetches_simps [simp]:
  "fetches [] = []"
  "fetches (Print m # xs) = fetches xs"
  "fetches (RunProcess a # xs) = fetches xs"
  "fetches (HttpGet u h # xs) = (u, h) # fetches xs"
  by (simp_all add: fetches_def map_filter_def)

lemma process_calls_append [simp]:
  "process_calls (xs @ ys) = process_calls xs @ process_calls ys"
  by (simp add: process_calls_def map_filter_def)

lemma process_calls_simps [simp]:
  "process_calls [] = []"
  "process_calls (Print m # xs) = process_calls xs"
  "process_calls (HttpGet u h # xs) = process_calls xs"
  "process_calls (RunProcess a # xs) = a # process_calls xs"
  by (simp_all add: process_calls_def map_filter_def)

lemma summary_is_summary: "is_summary (Print (summary a b))"
  by (simp add: summary_def)


subsection \<open>What each piece does to the trace\<close>

lemma request_handler_effect:
  "fetches (trace (snd (request_handler eid e s))) = fetches (trace s)"
  "filter is_summary (trace (snd (request_handler eid e s))) = filter is_summary (trace s)"
  by (cases e; simp)+

lemma get_entity_state_effect:
  "fetches (trace (snd (get_entity_state env u t eid s))) =
     fetches (trace s) @ [(u @ ''/api/states/'' @ eid, ''Bearer '' @ t)]"
  "filter is_summary (trace (snd (get_entity_state env u t eid s))) = filter is_summary (trace s)"
  by (simp_all add: get_entity_state_def Let_def request_handler_effect split: prod.splits sum.splits)

lemma subprocess_run_effect:
  "fetches (trace (snd (subprocess_run env args s))) = fetches (trace s)"
  "filter is_summary (trace (snd (subprocess_run env args s))) = filter is_summary (trace s)"
  by (simp_all add: subprocess_run_def Let_def split: prod.splits sum.splits option.splits)

lemma add_position_effect:
  "fetches (trace (snd (add_position env name lat lng label s))) = fetches (trace s)"
  "filter is_summary (trace (snd (add_position env name lat lng label s))) = filter is_summary (trace s)"
proof -
  obtain r s1 where run: "subprocess_run env
             [PStr POSITION_BIN, PStr ''add'', PStr name,
              PStr ''--lat'', PStr (py_str (str_other env) lat),
              PStr ''--lng'', PStr (py_str (str_other env) lng),
              PStr ''--label'', label] s = (r, s1)"
    by (cases "subprocess_run env
             [PStr POSITION_BIN, PStr ''add'', PStr name,
              PStr ''--lat'', PStr (py_str (str_other env) lat),
              PStr ''--lng'', PStr (py_str (str_other env) lng),
              PStr ''--label'', label] s")
  from subprocess_run_effect [of env _ s, unfolded run]
  have e: "fetches (trace s1) = fetches (trace s)"
          "filter is_summary (trace s1) = filter is_summary (trace s)"
    by (metis run snd_conv subprocess_run_effect(1), metis run snd_conv subprocess_run_effect(2))
  show "fetches (trace (snd (add_position env name lat lng label s))) = fetches (trace s)"
    using e by (simp add: add_position_def run split: sum.splits py_exn.splits)
  show "filter is_summary (trace (snd (add_position env name lat lng label s))) = filter is_summary (trace s)"
    using e by (simp add: add_position_def run split: sum.splits py_exn.splits)
qed

lemma sync_entity_effect:
  "fetches (trace (snd (sync_entity env u t eid name s))) =
     fetches (trace s) @ [(u @ ''/api/states/'' @ eid, ''Bearer '' @ t)]"
  "filter is_summary (trace (snd (sync_entity env u t eid name s))) = filter is_summary (trace s)"
proof -
  obtain r s1 where g: "get_entity_state env u t eid s = (r, s1)"
    by (cases "get_entity_state env u t eid s")
  have e: "fetches (trace s1) = fetches (trace s) @ [(u @ ''/api/states/'' @ eid, ''Bearer '' @ t)]"
          "filter is_summary (trace s1) = filter is_summary (trace s)"
    using get_entity_state_effect [of env u t eid s] by (simp_all add: g)
  show "fetches (trace (snd (sync_entity env u t eid name s))) =
     fetches (trace s) @ [(u @ ''/api/states/'' @ eid, ''Bearer '' @ t)]"
    using e by (simp add: sync_entity_def g add_position_effect split: sum.splits)
  show "filter is_summary (trace (snd (sync_entity env u t eid name s))) = filter is_summary (trace s)"
    using e by (simp add: sync_entity_def g add_position_effect split: sum.splits)
qed

subsection \<open>The loop\<close>

lemma sync_loop_fetches:
  "fetches (trace (snd (sync_loop env u t ents c s))) =
     fetches (trace s) @ map (fetch_of u t) (take (length (sync_results env u t ents s)) ents)"
proof (induction ents arbitrary: c s)
  case Nil
  then show ?case by simp
next
  case (Cons ent ents)
  obtain eid name where ent: "ent = (eid, name)" by (cases ent)
  obtain r s1 where se: "sync_entity env u t eid name s = (r, s1)"
    by (cases "sync_entity env u t eid name s")
  have f: "fetches (trace s1) = fetches (trace s) @ [fetch_of u t ent]"
    using sync_entity_effect(1) [of env u t eid name s] by (simp add: se fetch_of_def ent)
  show ?case
  proof (cases r)
    case (Inl e)
    then show ?thesis using f by (simp add: ent se)
  next
    case (Inr ok)
    then show ?thesis using f Cons.IH [of _ s1] by (simp add: ent se)
  qed
qed

lemma sync_loop_summaries:
  "filter is_summary (trace (snd (sync_loop env u t ents c s))) = filter is_summary (trace s)"
proof (induction ents arbitrary: c s)
  case Nil
  then show ?case by simp
next
  case (Cons ent ents)
  obtain eid name where ent: "ent = (eid, name)" by (cases ent)
  obtain r s1 where se: "sync_entity env u t eid name s = (r, s1)"
    by (cases "sync_entity env u t eid name s")
  have f: "filter is_summary (trace s1) = filter is_summary (trace s)"
    using sync_entity_effect(2) [of env u t eid name s] by (simp add: se)
  show ?case
    using f Cons.IH [of _ s1] by (cases r) (simp_all add: ent se)
qed

lemma sync_loop_returns:
  assumes "\<forall>r \<in> set (sync_results env u t ents s). \<not> isl r"
  shows "fst (sync_loop env u t ents c s) =
           Inr (c + length (filter (\<lambda>r. r = Inr True) (sync_results env u t ents s))) \<and>
         length (sync_results env u t ents s) = length ents"
  using assms
proof (induction ents arbitrary: c s)
  case Nil
  show ?case by simp
next
  case (Cons ent ents)
  obtain eid name where ent: "ent = (eid, name)" by (cases ent)
  obtain r s1 where se: "sync_entity env u t eid name s = (r, s1)"
    by (cases "sync_entity env u t eid name s")
  have res: "sync_results env u t (ent # ents) s =
               (case r of Inl e \<Rightarrow> [Inl e] | Inr ok \<Rightarrow> Inr ok # sync_results env u t ents s1)"
    by (simp add: ent se)
  show ?case
  proof (cases r)
    case (Inl e)
    with Cons.prems res show ?thesis by simp
  next
    case (Inr ok)
    with Cons.prems res have rest: "\<forall>r \<in> set (sync_results env u t ents s1). \<not> isl r"
      by simp
    have loop: "sync_loop env u t (ent # ents) c s =
                  sync_loop env u t ents (if ok then c + 1 else c) s1"
      by (simp add: ent se Inr)
    show ?thesis
      using Cons.IH [OF rest, of "if ok then c + 1 else c"] res Inr loop by simp
  qed
qed

lemma main_on_configured:
  assumes "environ ''HASS_URL'' = Some hass_url" and "hass_url \<noteq> []"
      and "environ ''HASS_TOKEN'' = Some hass_token" and "hass_token \<noteq> []"
  shows "main_on ents env environ s =
           (case sync_loop env (rstrip CHR ''/'' hass_url) hass_token ents 0 s of
              (Inl e, s1) \<Rightarrow> (Inl e, s1)
            | (Inr success_count, s1) \<Rightarrow>
                (Inr (if success_count = length ents then 0 else 1),
                 emit (Print (summary success_count (length ents))) s1))"
  using assms by (simp add: main_on_def)

subsection \<open>sync_entity on a state record with coordinates\<close>

lemma sync_entity_located:
  assumes "get_entity_state env u t eid s = (Inr (PDict kvs), s1)"
      and "map_of kvs ''attributes'' = Some (PDict akvs)"
      and "map_of akvs ''latitude'' = Some lat" and "lat \<noteq> PNone"
      and "map_of akvs ''longitude'' = Some lng" and "lng \<noteq> PNone"
  shows "sync_entity env u t eid name s =
           add_position env name lat lng
             (if truthy (case map_of akvs ''friendly_name'' of None \<Rightarrow> PNone | Some v \<Rightarrow> v)
              then (case map_of akvs ''friendly_name'' of None \<Rightarrow> PNone | Some v \<Rightarrow> v)
              else PStr eid) s1"
proof -
  have "kvs \<noteq> []" using assms(2) by auto
  then show ?thesis using assms
    by (simp add: sync_entity_def split: option.splits)
qed

lemma those_map_str_arg: "those (map str_arg (map PStr argv)) = Some argv"
  by (induction argv) simp_all

lemma subprocess_run_str:
  assumes "spawn env (world s) argv = (p, w')"
  shows "subprocess_run env (map PStr argv) s =
           (case p of
              Inl e \<Rightarrow> Inl e
            | Inr (rc, err) \<Rightarrow> if rc \<noteq> 0 then Inl (CalledProcessError rc err) else Inr (),
            (emit (RunProcess argv) s)\<lparr>world := w'\<rparr>)"
  using assms
  by (simp add: subprocess_run_def those_map_str_arg del: map_map split: sum.splits prod.splits)

lemma add_position_args:
  "[PStr POSITION_BIN, PStr ''add'', PStr name,
    PStr ''--lat'', PStr (py_str (str_other env) lat),
    PStr ''--lng'', PStr (py_str (str_other env) lng),
    PStr ''--label'', PStr l] = map PStr (recorder_argv env name lat lng l)"
  by (simp add: recorder_argv_def)

lemma add_position_str:
  assumes "spawn env (world s) (recorder_argv env name lat lng l) = (p, w')"
  shows "process_calls (trace (snd (add_position env name lat lng (PStr l) s))) =
           process_calls (trace s) @ [recorder_argv env name lat lng l]"
    and "fst (add_position env name lat lng (PStr l) s) =
           (case p of
              Inr (rc, err) \<Rightarrow> Inr (rc = 0)
            | Inl (CalledProcessError rc err) \<Rightarrow> Inr False
            | Inl FileNotFoundError \<Rightarrow> Inr False
            | Inl e \<Rightarrow> Inl e)"
  unfolding add_position_def add_position_args subprocess_run_str [OF assms]
  by (simp_all split: sum.splits py_exn.splits prod.splits)

subsection \<open>Stripping\<close>

lemma rstrip_decompose: "s = rstrip c s @ replicate (length (takeWhile (\<lambda>x. x = c) (rev s))) c"
proof -
  have "rev s = takeWhile (\<lambda>x. x = c) (rev s) @ dropWhile (\<lambda>x. x = c) (rev s)"
    by simp
  moreover have "takeWhile (\<lambda>x. x = c) (rev s) = replicate (length (takeWhile (\<lambda>x. x = c) (rev s))) c"
    by (rule replicate_length_same [symmetric]) (auto dest: set_takeWhileD)
  ultimately have "rev s = replicate (length (takeWhile (\<lambda>x. x = c) (rev s))) c @ dropWhile (\<lambda>x. x = c) (rev s)"
    by simp
  then have "rev (rev s) = rev (replicate (length (takeWhile (\<lambda>x. x = c) (rev s))) c @ dropWhile (\<lambda>x. x = c) (rev s))"
    by simp
  then show ?thesis by (simp add: rstrip_def)
qed

lemma rstrip_no_trailing: "rstrip c s = [] \<or> last (rstrip c s) \<noteq> c"
proof (cases "dropWhile (\<lambda>x. x = c) (rev s)")
  case Nil
  then show ?thesis by (simp add: rstrip_def)
next
  case (Cons x xs)
  then have "x \<noteq> c" using hd_dropWhile [of "\<lambda>x. x = c" "rev s"] by auto
  then show ?thesis using Cons by (simp add: rstrip_def)
qed

subsection \<open>Runs in worlds that answer alike\<close>

lemma agree_pair [simp]: "agree R (a, s1) (b, s2) = (a = b \<and> same_st R s1 s2)"
  by (simp add: agree_def)

lemma same_st_emit: "same_st R s1 s2 \<Longrightarrow> same_st R (emit e s1) (emit e s2)"
  by (simp add: same_st_def)

lemma request_handler_agree:
  "same_st R s1 s2 \<Longrightarrow> agree R (request_handler eid e s1) (request_handler eid e s2)"
  by (cases e) (simp_all add: same_st_emit)

lemma get_entity_state_agree:
  assumes "same_responses R e1 e2" and "same_st R s1 s2"
  shows "agree R (get_entity_state e1 u t eid s1) (get_entity_state e2 u t eid s2)"
proof -
  let ?url = "u @ ''/api/states/'' @ eid" and ?auth = "''Bearer '' @ t"
  obtain r w1' where g1: "requests_get e1 (world s1) ?url ?auth = (r, w1')"
    by (cases "requests_get e1 (world s1) ?url ?auth")
  obtain r2 w2' where g2: "requests_get e2 (world s2) ?url ?auth = (r2, w2')"
    by (cases "requests_get e2 (world s2) ?url ?auth")
  have R: "R (world s1) (world s2)" and tr: "trace s1 = trace s2"
    using assms(2) by (simp_all add: same_st_def)
  from assms(1) R have "fst (requests_get e1 (world s1) ?url ?auth) = fst (requests_get e2 (world s2) ?url ?auth)
      \<and> R (snd (requests_get e1 (world s1) ?url ?auth)) (snd (requests_get e2 (world s2) ?url ?auth))"
    unfolding same_responses_def by blast
  then have "r = r2 \<and> R w1' w2'" unfolding g1 g2 by simp
  then have eq: "r2 = r" and R': "R w1' w2'" by simp_all
  have st: "same_st R ((emit (HttpGet ?url ?auth) s1)\<lparr>world := w1'\<rparr>)
                      ((emit (HttpGet ?url ?auth) s2)\<lparr>world := w2'\<rparr>)"
    using tr R' by (simp add: same_st_def)
  show ?thesis
    unfolding get_entity_state_def Let_def g1 g2 eq
    using st
    by (simp add: request_handler_agree same_st_emit split: sum.splits)
qed

lemma subprocess_run_agree:
  assumes "same_responses R e1 e2" and "same_st R s1 s2"
  shows "agree R (subprocess_run e1 args s1) (subprocess_run e2 args s2)"
proof (cases "those (map str_arg args)")
  case None
  then show ?thesis using assms(2) by (simp add: subprocess_run_def)
next
  case (Some argv)
  obtain p w1' where g1: "spawn e1 (world s1) argv = (p, w1')"
    by (cases "spawn e1 (world s1) argv")
  obtain p2 w2' where g2: "spawn e2 (world s2) argv = (p2, w2')"
    by (cases "spawn e2 (world s2) argv")
  have R: "R (world s1) (world s2)" and tr: "trace s1 = trace s2"
    using assms(2) by (simp_all add: same_st_def)
  from assms(1) R have "fst (spawn e1 (world s1) argv) = fst (spawn e2 (world s2) argv)
      \<and> R (snd (spawn e1 (world s1) argv)) (snd (spawn e2 (world s2) argv))"
    unfolding same_responses_def by blast
  then have "p = p2 \<and> R w1' w2'" unfolding g1 g2 by simp
  then have eq: "p2 = p" and R': "R w1' w2'" by simp_all
  have st: "same_st R ((emit (RunProcess argv) s1)\<lparr>world := w1'\<rparr>)
                      ((emit (RunProcess argv) s2)\<lparr>world := w2'\<rparr>)"
    using tr R' by (simp add: same_st_def)
  show ?thesis
    using st by (simp add: subprocess_run_def Some g1 g2 eq Let_def split: sum.splits prod.splits)
qed

lemma add_position_agree:
  assumes "same_responses R e1 e2" and "same_st R s1 s2"
  shows "agree R (add_position e1 name lat lng label s1) (add_position e2 name lat lng label s2)"
proof -
  have so: "str_other e1 = str_other e2" using assms(1) by (simp add: same_responses_def)
  let ?args = "[PStr POSITION_BIN, PStr ''add'', PStr name,
              PStr ''--lat'', PStr (py_str (str_other e2) lat),
              PStr ''--lng'', PStr (py_str (str_other e2) lng),
              PStr ''--label'', label]"
  obtain r a where g1: "subprocess_run e1 ?args s1 = (r, a)"
    by (cases "subprocess_run e1 ?args s1")
  obtain r2 b where g2: "subprocess_run e2 ?args s2 = (r2, b)"
    by (cases "subprocess_run e2 ?args s2")
  have "agree R (subprocess_run e1 ?args s1) (subprocess_run e2 ?args s2)"
    by (rule subprocess_run_agree [OF assms])
  then have eq: "r2 = r" and st: "same_st R a b" by (simp_all add: g1 g2)
  show ?thesis
    using st
    by (simp add: add_position_def so g1 g2 eq same_st_emit split: sum.splits py_exn.splits)
qed

lemma sync_entity_agree:
  assumes "same_responses R e1 e2" and "same_st R s1 s2"
  shows "agree R (sync_entity e1 u t eid name s1) (sync_entity e2 u t eid name s2)"
proof -
  have so: "str_other e1 = str_other e2" using assms(1) by (simp add: same_responses_def)
  obtain r a where g1: "get_entity_state e1 u t eid s1 = (r, a)"
    by (cases "get_entity_state e1 u t eid s1")
  obtain r2 b where g2: "get_entity_state e2 u t eid s2 = (r2, b)"
    by (cases "get_entity_state e2 u t eid s2")
  have "agree R (get_entity_state e1 u t eid s1) (get_entity_state e2 u t eid s2)"
    by (rule get_entity_state_agree [OF assms])
  then have eq: "r2 = r" and st: "same_st R a b" by (simp_all add: g1 g2)
  show ?thesis
    using st
    by (simp add: sync_entity_def so g1 g2 eq same_st_emit add_position_agree [OF assms(1)]
          split: sum.splits)
qed

lemma sync_loop_agree:
  assumes "same_responses R e1 e2" and "same_st R s1 s2"
  shows "agree R (sync_loop e1 u t ents c s1) (sync_loop e2 u t ents c s2) \<and>
         sync_results e1 u t ents s1 = sync_results e2 u t ents s2"
  using assms(2)
proof (induction ents arbitrary: c s1 s2)
  case Nil
  then show ?case by simp
next
  case (Cons ent ents)
  obtain eid name where ent: "ent = (eid, name)" by (cases ent)
  obtain r a where g1: "sync_entity e1 u t eid name s1 = (r, a)"
    by (cases "sync_entity e1 u t eid name s1")
  obtain r2 b where g2: "sync_entity e2 u t eid name s2 = (r2, b)"
    by (cases "sync_entity e2 u t eid name s2")
  have "agree R (sync_entity e1 u t eid name s1) (sync_entity e2 u t eid name s2)"
    by (rule sync_entity_agree [OF assms(1) Cons.prems])
  then have eq: "r2 = r" and st: "same_st R a b" by (simp_all add: g1 g2)
  show ?case
  proof (cases r)
    case (Inl e)
    then show ?thesis using st by (simp add: ent g1 g2 eq)
  next
    case (Inr ok)
    then show ?thesis using Cons.IH [OF st] by (simp add: ent g1 g2 eq)
  qed
qed

subsection \<open>Evaluating concrete runs\<close>

lemmas run_defs =
  sync_entity_def get_entity_state_def add_position_def subprocess_run_def ok_body_def
  only_def located_def exits_def no_render_def two_entities_def ENTITIES_def
  POSITION_BIN_def configured_def start_def emit_def Let_def main_def
  str_int_def str_nat.simps summary_def rstrip_def main_on_def config_error_def
  stateless_env_def

lemma only_harper_results:
  "sync_results (scripted_env (only ''person.harper'') (exits 0) no_render) ''http://ha'' ''t'' two_entities (start 0) =
     [Inr True, Inr False]"
  by (simp add: run_defs)

lemma fetch_located:
  "get_entity_state (scripted_env (\<lambda>url. ok_body (located extra)) run render)
     ''http://ha'' ''t'' ''person.harper'' (start 0) = (Inr (located extra), after_fetch)"
  by (simp add: get_entity_state_def ok_body_def start_def emit_def after_fetch_def)

section \<open>The properties\<close>

text \<open>
  C1, amended. For every run that reaches the entity loop and in which no entity's
  sync raises, \<open>main\<close> returns exit code 0 if the number of entities whose sync
  succeeded equals the number of configured entities and 1 otherwise, and it prints
  exactly one summary line, its last line, \<^verbatim>\<open>Synced <succeeded>/<total> entities\<close>.
\<close>

theorem main_summary:
  assumes "environ ''HASS_URL'' = Some hass_url" and "hass_url \<noteq> []"
      and "environ ''HASS_TOKEN'' = Some hass_token" and "hass_token \<noteq> []"
      and "results = sync_results env (rstrip CHR ''/'' hass_url) hass_token ents (start w)"
      and "\<forall>r \<in> set results. \<not> isl r"
      and "succeeded = length (filter (\<lambda>r. r = Inr True) results)"
  shows "fst (main_on ents env environ (start w)) =
           Inr (if succeeded = length ents then 0 else 1) \<and>
         filter is_summary (trace (snd (main_on ents env environ (start w)))) =
           [Print (summary succeeded (length ents))] \<and>
         last (trace (snd (main_on ents env environ (start w)))) =
           Print (summary succeeded (length ents))"
proof -
  let ?u = "rstrip CHR ''/'' hass_url"
  obtain r s1 where loop: "sync_loop env ?u hass_token ents 0 (start w) = (r, s1)"
    by (cases "sync_loop env ?u hass_token ents 0 (start w)")
  have "fst (sync_loop env ?u hass_token ents 0 (start w)) = Inr (0 + succeeded)"
    using sync_loop_returns [of env ?u hass_token ents "start w" 0] assms(5,6,7) by simp
  then have r: "r = Inr succeeded" by (simp add: loop)
  have "filter is_summary (trace (snd (sync_loop env ?u hass_token ents 0 (start w)))) =
          filter is_summary (trace (start w))"
    by (rule sync_loop_summaries)
  then have none: "filter is_summary (trace s1) = []" by (simp add: loop)
  have m: "main_on ents env environ (start w) =
             (Inr (if succeeded = length ents then 0 else 1),
              emit (Print (summary succeeded (length ents))) s1)"
    by (simp add: main_on_configured [OF assms(1-4)] loop r)
  show ?thesis
    by (simp add: m none summary_is_summary del: is_summary.simps)
qed

theorem main_summary_witness:
  "sync_results (scripted_env (only ''person.harper'') (exits 0) no_render) ''http://ha'' ''t'' two_entities (start 0) =
     [Inr True, Inr False] \<and>
   fst (main_on two_entities (scripted_env (only ''person.harper'') (exits 0) no_render)
          (configured ''http://ha/'' ''t'') (start 0)) = Inr 1 \<and>
   filter is_summary
     (trace (snd (main_on two_entities (scripted_env (only ''person.harper'') (exits 0) no_render)
                    (configured ''http://ha/'' ''t'') (start 0)))) = [Print ''Synced 1/2 entities'']"
proof -
  have u: "rstrip CHR ''/'' ''http://ha/'' = ''http://ha''" by (simp add: rstrip_def)
  have r: "[Inr True, Inr False] =
             sync_results (scripted_env (only ''person.harper'') (exits 0) no_render)
               (rstrip CHR ''/'' ''http://ha/'') ''t'' two_entities (start 0)"
    unfolding u by (simp add: only_harper_results)
  have s: "summary 1 (length two_entities) = ''Synced 1/2 entities''"
    by (simp add: summary_def str_nat.simps two_entities_def)
  have cfg: "(configured ''http://ha/'' ''t'') ''HASS_URL'' = Some ''http://ha/''" "''http://ha/'' \<noteq> []"
    "(configured ''http://ha/'' ''t'') ''HASS_TOKEN'' = Some ''t''" "''t'' \<noteq> []"
    by (simp_all add: configured_def)
  have ok: "\<forall>r \<in> set [Inr True, Inr False :: py_exn + bool]. \<not> isl r" by simp
  have n: "(1::nat) = length (filter (\<lambda>r. r = Inr True) [Inr True, Inr False :: py_exn + bool])"
    by simp
  have len: "(1 = length two_entities) = False" by (simp add: two_entities_def)
  note w = main_summary [OF cfg r ok n, unfolded s len if_False]
  show ?thesis
    using w by (simp add: only_harper_results)
qed

text \<open>
  C1 as stated fails: when Home Assistant answers 200 with the JSON list \<^verbatim>\<open>[1]\<close>,
  \<^verbatim>\<open>state.get\<close> raises \<^verbatim>\<open>AttributeError\<close> out of \<open>sync_entity\<close> and \<open>main\<close>; the run
  reached the loop and prints no summary line.
\<close>

theorem main_summary_counterexample:
  "main (scripted_env (\<lambda>url. ok_body (PList [PInt 1])) (exits 0) no_render)
     (configured ''http://ha/'' ''t'') (start 0) =
     (Inl AttributeError,
      \<lparr>world = 1, trace = [HttpGet ''http://ha/api/states/person.harper'' ''Bearer t'']\<rparr>)"
  by (simp add: run_defs)

text \<open>
  C2. If the service URL or the bearer token is missing or empty after the
  configuration is loaded, \<open>main\<close> prints the error message and returns exit code 1;
  the world is untouched and the trace gains that one printed line only, so no HTTP
  request is made and no process is started.
\<close>

theorem main_config_missing:
  assumes "environ ''HASS_URL'' = None \<or> environ ''HASS_URL'' = Some [] \<or>
           environ ''HASS_TOKEN'' = None \<or> environ ''HASS_TOKEN'' = Some []"
  shows "main_on ents env environ s =
           (Inr 1, emit (Print ''Error: HASS_URL and HASS_TOKEN must be set in .env or environment'') s)"
  using assms
  by (auto simp: main_on_def config_error_def split: option.splits)

theorem main_config_missing_witness:
  "main (scripted_env (\<lambda>url. ok_body PNone) (\<lambda>argv. Inr (0, [])) (\<lambda>v. []))
        [''HASS_URL'' \<mapsto> ''http://ha''] (start 0) =
     (Inr 1,
      \<lparr>world = 0,
       trace = [Print ''Error: HASS_URL and HASS_TOKEN must be set in .env or environment'']\<rparr>)"
  using main_config_missing [of "[''HASS_URL'' \<mapsto> ''http://ha'']" ENTITIES
      "scripted_env (\<lambda>url. ok_body PNone) (\<lambda>argv. Inr (0, [])) (\<lambda>v. [])" "start 0"]
  by (simp add: main_def start_def emit_def)



text \<open>
  C4, amended. For every non-empty state record whose \<^verbatim>\<open>attributes\<close> is absent or an
  object, and in which \<^verbatim>\<open>latitude\<close> or \<^verbatim>\<open>longitude\<close> is absent from the attributes,
  \<open>sync_entity\<close> returns \<^verbatim>\<open>False\<close> without raising, and the only thing it does after the
  fetch is to print the no-location line with the record's \<^verbatim>\<open>state\<close> (\<^verbatim>\<open>unknown\<close> when
  there is none): no process is started.
\<close>

theorem sync_entity_no_location:
  assumes "get_entity_state env u t eid s = (Inr (PDict kvs), s1)"
      and "kvs \<noteq> []"
      and "map_of kvs ''attributes'' = None \<and> akvs = [] \<or>
           map_of kvs ''attributes'' = Some (PDict akvs)"
      and "map_of akvs ''latitude'' = None \<or> map_of akvs ''longitude'' = None"
  shows "sync_entity env u t eid name s =
           (Inr False,
            emit (Print (''No location for '' @ eid @ '' (state: '' @
                    py_str (str_other env)
                      (case map_of kvs ''state'' of None \<Rightarrow> PStr ''unknown'' | Some v \<Rightarrow> v) @
                    '')'')) s1)"
  using assms
  by (auto simp: sync_entity_def split: option.splits)

theorem sync_entity_no_location_witness:
  "get_entity_state
     (scripted_env (\<lambda>url. ok_body (PDict [(''state'', PStr ''not_home''), (''attributes'', PDict [])]))
        (exits 0) no_render)
     ''http://ha'' ''t'' ''person.harper'' (start 0) =
     (Inr (PDict [(''state'', PStr ''not_home''), (''attributes'', PDict [])]),
      \<lparr>world = 1, trace = [HttpGet ''http://ha/api/states/person.harper'' ''Bearer t'']\<rparr>) \<and>
   sync_entity
     (scripted_env (\<lambda>url. ok_body (PDict [(''state'', PStr ''not_home''), (''attributes'', PDict [])]))
        (exits 0) no_render)
     ''http://ha'' ''t'' ''person.harper'' ''harper'' (start 0) =
     (Inr False,
      \<lparr>world = 1,
       trace = [HttpGet ''http://ha/api/states/person.harper'' ''Bearer t'',
                Print ''No location for person.harper (state: not_home)'']\<rparr>)"
proof -
  let ?E = "scripted_env (\<lambda>url. ok_body (PDict [(''state'', PStr ''not_home''), (''attributes'', PDict [])]))
        (exits 0) no_render"
  have g: "get_entity_state ?E ''http://ha'' ''t'' ''person.harper'' (start 0) =
     (Inr (PDict [(''state'', PStr ''not_home''), (''attributes'', PDict [])]),
      \<lparr>world = 1, trace = [HttpGet ''http://ha/api/states/person.harper'' ''Bearer t'']\<rparr>)"
    by (simp add: run_defs)
  show ?thesis
    using sync_entity_no_location [OF g, of "[]" "''harper''"]
    by (simp add: g emit_def)
qed

text \<open>
  C4 as stated fails on the empty state record \<^verbatim>\<open>{}\<close>: it lacks \<^verbatim>\<open>latitude\<close>, the
  entity is marked failed, but \<^verbatim>\<open>if not state\<close> returns before anything is logged.
\<close>

theorem sync_entity_no_location_counterexample:
  "get_entity_state (scripted_env (\<lambda>url. ok_body (PDict [])) (exits 0) no_render)
     ''http://ha'' ''t'' ''person.harper'' (start 0) =
     (Inr (PDict []),
      \<lparr>world = 1, trace = [HttpGet ''http://ha/api/states/person.harper'' ''Bearer t'']\<rparr>) \<and>
   sync_entity (scripted_env (\<lambda>url. ok_body (PDict [])) (exits 0) no_render)
     ''http://ha'' ''t'' ''person.harper'' ''harper'' (start 0) =
     (Inr False,
      \<lparr>world = 1, trace = [HttpGet ''http://ha/api/states/person.harper'' ''Bearer t'']\<rparr>)"
  by (simp add: run_defs)




text \<open>
  C6, amended. When a state record provides both \<^verbatim>\<open>latitude\<close> and \<^verbatim>\<open>longitude\<close> and
  the label (\<^verbatim>\<open>friendly_name\<close> if truthy, else the entity id) is a string, the position
  tool is started once, with exactly the argument vector of the source;
  \<open>sync_entity\<close> returns \<^verbatim>\<open>True\<close> exactly when the process exits with status 0; a
  missing executable or a non-zero exit makes it return \<^verbatim>\<open>False\<close>, and the loop goes
  on with the remaining entities and an unchanged count.
\<close>

theorem sync_entity_recorder_call:
  assumes "get_entity_state env hass_url hass_token entity_id s = (Inr (PDict kvs), s1)"
      and "map_of kvs ''attributes'' = Some (PDict akvs)"
      and "map_of akvs ''latitude'' = Some lat" and "lat \<noteq> PNone"
      and "map_of akvs ''longitude'' = Some lng" and "lng \<noteq> PNone"
      and "fn = (case map_of akvs ''friendly_name'' of None \<Rightarrow> PNone | Some v \<Rightarrow> v)"
      and "(if truthy fn then fn else PStr entity_id) = PStr label"
      and "argv = [POSITION_BIN, ''add'', position_name,
                   ''--lat'', py_str (str_other env) lat,
                   ''--lng'', py_str (str_other env) lng,
                   ''--label'', label]"
      and "spawn env (world s1) argv = (p, w')"
  shows "process_calls (trace (snd (sync_entity env hass_url hass_token entity_id position_name s))) =
           process_calls (trace s1) @ [argv] \<and>
         (fst (sync_entity env hass_url hass_token entity_id position_name s) = Inr True) =
           (\<exists>err. p = Inr (0, err)) \<and>
         (p = Inl FileNotFoundError \<or> (\<exists>rc err. p = Inr (rc, err) \<and> rc \<noteq> 0) \<longrightarrow>
            fst (sync_entity env hass_url hass_token entity_id position_name s) = Inr False \<and>
            sync_loop env hass_url hass_token ((entity_id, position_name) # rest) c s =
              sync_loop env hass_url hass_token rest c
                (snd (sync_entity env hass_url hass_token entity_id position_name s)))"
proof -
  have argv: "argv = recorder_argv env position_name lat lng label"
    by (simp add: assms(9) recorder_argv_def)
  have lab: "(if truthy (case map_of akvs ''friendly_name'' of None \<Rightarrow> PNone | Some v \<Rightarrow> v)
              then (case map_of akvs ''friendly_name'' of None \<Rightarrow> PNone | Some v \<Rightarrow> v)
              else PStr entity_id) = PStr label"
    using assms(8) unfolding assms(7) .
  have se: "sync_entity env hass_url hass_token entity_id position_name s =
              add_position env position_name lat lng (PStr label) s1"
    unfolding sync_entity_located [OF assms(1-6), of position_name] lab ..
  note ap = add_position_str [OF assms(10) [unfolded argv]]
  have calls: "process_calls (trace (snd (sync_entity env hass_url hass_token entity_id position_name s))) =
           process_calls (trace s1) @ [argv]"
    by (simp add: se ap(1) argv)
  have res: "fst (sync_entity env hass_url hass_token entity_id position_name s) =
           (case p of
              Inr (rc, err) \<Rightarrow> Inr (rc = 0)
            | Inl (CalledProcessError rc err) \<Rightarrow> Inr False
            | Inl FileNotFoundError \<Rightarrow> Inr False
            | Inl e \<Rightarrow> Inl e)"
    by (simp add: se ap(2))
  have ok: "(fst (sync_entity env hass_url hass_token entity_id position_name s) = Inr True) =
           (\<exists>err. p = Inr (0, err))"
    unfolding res by (auto split: sum.splits py_exn.splits)
  have fail: "fst (sync_entity env hass_url hass_token entity_id position_name s) = Inr False"
    if "p = Inl FileNotFoundError \<or> (\<exists>rc err. p = Inr (rc, err) \<and> rc \<noteq> 0)"
    using that unfolding res by auto
  have cont: "sync_loop env hass_url hass_token ((entity_id, position_name) # rest) c s =
              sync_loop env hass_url hass_token rest c
                (snd (sync_entity env hass_url hass_token entity_id position_name s))"
    if "fst (sync_entity env hass_url hass_token entity_id position_name s) = Inr False"
    using that by (cases "sync_entity env hass_url hass_token entity_id position_name s") simp
  show ?thesis using calls ok fail cont by blast
qed

theorem sync_entity_recorder_call_witness:
  "get_entity_state
     (scripted_env (\<lambda>url. ok_body (located [(''friendly_name'', PStr ''Harper'')])) (exits 0) no_render)
     ''http://ha'' ''t'' ''person.harper'' (start 0) =
     (Inr (located [(''friendly_name'', PStr ''Harper'')]), after_fetch) \<and>
   process_calls (trace (snd (sync_entity
     (scripted_env (\<lambda>url. ok_body (located [(''friendly_name'', PStr ''Harper'')])) (exits 0) no_render)
     ''http://ha'' ''t'' ''person.harper'' ''harper'' (start 0)))) =
     [[''position'', ''add'', ''harper'', ''--lat'', ''40'', ''--lng'', ''-74'', ''--label'', ''Harper'']] \<and>
   fst (sync_entity
     (scripted_env (\<lambda>url. ok_body (located [(''friendly_name'', PStr ''Harper'')])) (exits 0) no_render)
     ''http://ha'' ''t'' ''person.harper'' ''harper'' (start 0)) = Inr True"
proof -
  let ?E = "scripted_env (\<lambda>url. ok_body (located [(''friendly_name'', PStr ''Harper'')])) (exits 0) no_render"
  let ?argv = "[''position'', ''add'', ''harper'', ''--lat'', ''40'', ''--lng'', ''-74'', ''--label'', ''Harper'']"
  have g: "get_entity_state ?E ''http://ha'' ''t'' ''person.harper'' (start 0) =
             (Inr (PDict [(''state'', PStr ''home''),
                (''attributes'', PDict [(''latitude'', PInt 40), (''longitude'', PInt (- 74)),
                                        (''friendly_name'', PStr ''Harper'')])]), after_fetch)"
    using fetch_located [of "[(''friendly_name'', PStr ''Harper'')]" "exits 0" no_render]
    by (simp add: located_def)
  have argv: "?argv = [POSITION_BIN, ''add'', ''harper'',
                   ''--lat'', py_str (str_other ?E) (PInt 40),
                   ''--lng'', py_str (str_other ?E) (PInt (- 74)),
                   ''--label'', ''Harper'']"
    by (simp add: POSITION_BIN_def str_int_def str_nat.simps)
  have sp: "spawn ?E (world after_fetch) ?argv = (Inr (0, []), 2)"
    by (simp add: exits_def after_fetch_def)
  have a: "map_of [(''state'', PStr ''home''),
                (''attributes'', PDict [(''latitude'', PInt 40), (''longitude'', PInt (- 74)),
                                        (''friendly_name'', PStr ''Harper'')])] ''attributes'' =
           Some (PDict [(''latitude'', PInt 40), (''longitude'', PInt (- 74)),
                        (''friendly_name'', PStr ''Harper'')])"
    by simp
  have la: "map_of [(''latitude'', PInt 40), (''longitude'', PInt (- 74)),
                    (''friendly_name'', PStr ''Harper'')] ''latitude'' = Some (PInt 40)"
    and lo: "map_of [(''latitude'', PInt 40), (''longitude'', PInt (- 74)),
                    (''friendly_name'', PStr ''Harper'')] ''longitude'' = Some (PInt (- 74))"
    by simp_all
  have n1: "PInt 40 \<noteq> PNone" and n2: "PInt (- 74) \<noteq> PNone" by simp_all
  have lab: "(if truthy (case map_of [(''latitude'', PInt 40), (''longitude'', PInt (- 74)),
                    (''friendly_name'', PStr ''Harper'')] ''friendly_name'' of None \<Rightarrow> PNone | Some v \<Rightarrow> v)
              then (case map_of [(''latitude'', PInt 40), (''longitude'', PInt (- 74)),
                    (''friendly_name'', PStr ''Harper'')] ''friendly_name'' of None \<Rightarrow> PNone | Some v \<Rightarrow> v)
              else PStr ''person.harper'') = PStr ''Harper''"
    by simp
  note w = sync_entity_recorder_call [OF g a la n1 lo n2 refl lab argv sp]
  have "process_calls (trace (snd (sync_entity ?E ''http://ha'' ''t'' ''person.harper'' ''harper'' (start 0)))) =
          process_calls (trace after_fetch) @ [?argv] \<and>
        fst (sync_entity ?E ''http://ha'' ''t'' ''person.harper'' ''harper'' (start 0)) = Inr True"
    using w by blast
  then show ?thesis
    using fetch_located [of "[(''friendly_name'', PStr ''Harper'')]" "exits 0" no_render]
    by (simp add: after_fetch_def)
qed

text \<open>
  C6 as stated fails: with \<^verbatim>\<open>friendly_name\<close> the number 5 the record provides both
  coordinates, yet \<^verbatim>\<open>subprocess.run\<close> raises \<^verbatim>\<open>TypeError\<close> on the non-string argument
  and no process is started.
\<close>

theorem sync_entity_recorder_call_counterexample:
  "sync_entity
     (scripted_env (\<lambda>url. ok_body (located [(''friendly_name'', PInt 5)])) (exits 0) no_render)
     ''http://ha'' ''t'' ''person.harper'' ''harper'' (start 0) =
     (Inl TypeError,
      \<lparr>world = 1, trace = [HttpGet ''http://ha/api/states/person.harper'' ''Bearer t'']\<rparr>)"
  by (simp add: run_defs)

text \<open>
  C7, amended. For every state record with both coordinates, the label passed to the
  position tool is \<^verbatim>\<open>friendly_name\<close> when that is a non-empty string, and the entity id
  when \<^verbatim>\<open>friendly_name\<close> is absent, null or the empty string.
\<close>

theorem sync_entity_label:
  assumes "get_entity_state env hass_url hass_token entity_id s = (Inr (PDict kvs), s1)"
      and "map_of kvs ''attributes'' = Some (PDict akvs)"
      and "map_of akvs ''latitude'' = Some lat" and "lat \<noteq> PNone"
      and "map_of akvs ''longitude'' = Some lng" and "lng \<noteq> PNone"
      and "map_of akvs ''friendly_name'' = Some (PStr label) \<and> label \<noteq> [] \<or>
           map_of akvs ''friendly_name'' \<in> {None, Some PNone, Some (PStr [])} \<and> label = entity_id"
  shows "process_calls (trace (snd (sync_entity env hass_url hass_token entity_id position_name s))) =
           process_calls (trace s1) @
           [[POSITION_BIN, ''add'', position_name,
             ''--lat'', py_str (str_other env) lat,
             ''--lng'', py_str (str_other env) lng,
             ''--label'', label]]"
proof -
  have lab: "(if truthy (case map_of akvs ''friendly_name'' of None \<Rightarrow> PNone | Some v \<Rightarrow> v)
              then (case map_of akvs ''friendly_name'' of None \<Rightarrow> PNone | Some v \<Rightarrow> v)
              else PStr entity_id) = PStr label"
    using assms(7) by auto
  have se: "sync_entity env hass_url hass_token entity_id position_name s =
              add_position env position_name lat lng (PStr label) s1"
    using sync_entity_located [OF assms(1-6), of position_name] lab by simp
  obtain p w' where sp: "spawn env (world s1) (recorder_argv env position_name lat lng label) = (p, w')"
    by (cases "spawn env (world s1) (recorder_argv env position_name lat lng label)")
  show ?thesis
    by (simp add: se add_position_str(1) [OF sp]) (simp add: recorder_argv_def)
qed

theorem sync_entity_label_witness:
  "get_entity_state (scripted_env (\<lambda>url. ok_body (located [])) (exits 0) no_render)
     ''http://ha'' ''t'' ''person.harper'' (start 0) = (Inr (located []), after_fetch) \<and>
   process_calls (trace (snd (sync_entity
     (scripted_env (\<lambda>url. ok_body (located [])) (exits 0) no_render)
     ''http://ha'' ''t'' ''person.harper'' ''harper'' (start 0)))) =
     [[''position'', ''add'', ''harper'', ''--lat'', ''40'', ''--lng'', ''-74'', ''--label'', ''person.harper'']]"
proof -
  let ?E = "scripted_env (\<lambda>url. ok_body (located [])) (exits 0) no_render"
  have g: "get_entity_state ?E ''http://ha'' ''t'' ''person.harper'' (start 0) =
             (Inr (PDict [(''state'', PStr ''home''),
                (''attributes'', PDict [(''latitude'', PInt 40), (''longitude'', PInt (- 74))])]),
              after_fetch)"
    using fetch_located [of "[]" "exits 0" no_render] by (simp add: located_def)
  have "process_calls (trace (snd (sync_entity ?E ''http://ha'' ''t'' ''person.harper'' ''harper'' (start 0)))) =
          process_calls (trace after_fetch) @
           [[POSITION_BIN, ''add'', ''harper'',
             ''--lat'', py_str (str_other ?E) (PInt 40),
             ''--lng'', py_str (str_other ?E) (PInt (- 74)),
             ''--label'', ''person.harper'']]"
  proof (rule sync_entity_label [OF g])
    show "map_of [(''state'', PStr ''home''),
                (''attributes'', PDict [(''latitude'', PInt 40), (''longitude'', PInt (- 74))])]
            ''attributes'' = Some (PDict [(''latitude'', PInt 40), (''longitude'', PInt (- 74))])"
      by simp
    show "map_of [(''latitude'', PInt 40), (''longitude'', PInt (- 74))] ''latitude'' = Some (PInt 40)"
      by simp
    show "map_of [(''latitude'', PInt 40), (''longitude'', PInt (- 74))] ''longitude'' = Some (PInt (- 74))"
      by simp
    show "PInt 40 \<noteq> PNone" "PInt (- 74) \<noteq> PNone" by simp_all
    show "map_of [(''latitude'', PInt 40), (''longitude'', PInt (- 74))] ''friendly_name'' =
            Some (PStr ''person.harper'') \<and> ''person.harper'' \<noteq> [] \<or>
          map_of [(''latitude'', PInt 40), (''longitude'', PInt (- 74))] ''friendly_name''
            \<in> {None, Some PNone, Some (PStr [])} \<and> ''person.harper'' = ''person.harper''"
      by simp
  qed
  then show ?thesis
    using fetch_located [of "[]" "exits 0" no_render]
    by (simp add: after_fetch_def POSITION_BIN_def str_int_def str_nat.simps)
qed

text \<open>
  C7 as stated fails: with \<^verbatim>\<open>friendly_name\<close> present and empty, the label passed is the
  entity id, not \<^verbatim>\<open>friendly_name\<close>.
\<close>

theorem sync_entity_label_counterexample:
  "map_of [(''latitude'', PInt 40), (''longitude'', PInt (- 74)), (''friendly_name'', PStr [])]
     ''friendly_name'' = Some (PStr []) \<and>
   process_calls (trace (snd (sync_entity
     (scripted_env (\<lambda>url. ok_body (located [(''friendly_name'', PStr [])])) (exits 0) no_render)
     ''http://ha'' ''t'' ''person.harper'' ''harper'' (start 0)))) =
     [[''position'', ''add'', ''harper'', ''--lat'', ''40'', ''--lng'', ''-74'', ''--label'', ''person.harper'']]"
  by (simp add: run_defs)

text \<open>
  C8. With a complete configuration, every fetch of the run goes to
  \<^verbatim>\<open><base>/api/states/<entity_id>\<close> for the entities of the mapping in order, where
  \<open>base\<close> is the configured URL without its trailing slashes: the URL is \<open>base\<close>
  followed by slashes only, and \<open>base\<close> does not end in a slash.
\<close>

theorem main_fetch_urls:
  assumes "environ ''HASS_URL'' = Some hass_url" and "hass_url \<noteq> []"
      and "environ ''HASS_TOKEN'' = Some hass_token" and "hass_token \<noteq> []"
      and "base = rstrip CHR ''/'' hass_url"
  shows "map fst (fetches (trace (snd (main_on ents env environ (start w))))) =
           map (\<lambda>ent. base @ ''/api/states/'' @ fst ent)
             (take (length (sync_results env base hass_token ents (start w))) ents) \<and>
         hass_url = base @ replicate (length (takeWhile (\<lambda>x. x = CHR ''/'') (rev hass_url))) CHR ''/'' \<and>
         (base = [] \<or> last base \<noteq> CHR ''/'')"
proof -
  have "fetches (trace (snd (main_on ents env environ (start w)))) =
          fetches (trace (snd (sync_loop env base hass_token ents 0 (start w))))"
    by (simp add: main_on_configured [OF assms(1-4)] assms(5) split: prod.splits sum.splits)
  then have "map fst (fetches (trace (snd (main_on ents env environ (start w))))) =
           map (\<lambda>ent. base @ ''/api/states/'' @ fst ent)
             (take (length (sync_results env base hass_token ents (start w))) ents)"
    by (simp add: sync_loop_fetches fetch_of_def comp_def)
  moreover have "hass_url = base @ replicate (length (takeWhile (\<lambda>x. x = CHR ''/'') (rev hass_url))) CHR ''/''"
    unfolding assms(5) by (rule rstrip_decompose)
  moreover have "base = [] \<or> last base \<noteq> CHR ''/''"
    unfolding assms(5) by (rule rstrip_no_trailing)
  ultimately show ?thesis by blast
qed

theorem main_fetch_urls_witness:
  "rstrip CHR ''/'' ''http://ha//'' = ''http://ha'' \<and>
   map fst (fetches (trace (snd (main_on two_entities
       (scripted_env (only ''person.harper'') (exits 0) no_render)
       (configured ''http://ha//'' ''t'') (start 0))))) =
     [''http://ha/api/states/person.harper'', ''http://ha/api/states/device_tracker.model_3'']"
proof -
  let ?E = "scripted_env (only ''person.harper'') (exits 0) no_render"
  have u: "''http://ha'' = rstrip CHR ''/'' ''http://ha//''" by (simp add: rstrip_def)
  have cfg: "configured ''http://ha//'' ''t'' ''HASS_URL'' = Some ''http://ha//''" "''http://ha//'' \<noteq> []"
    "configured ''http://ha//'' ''t'' ''HASS_TOKEN'' = Some ''t''" "''t'' \<noteq> []"
    by (simp_all add: configured_def)
  have m: "map (\<lambda>ent. ''http://ha'' @ ''/api/states/'' @ fst ent)
             (take (length (sync_results ?E ''http://ha'' ''t'' two_entities (start 0))) two_entities) =
           [''http://ha/api/states/person.harper'', ''http://ha/api/states/device_tracker.model_3'']"
    unfolding only_harper_results by (simp add: two_entities_def)
  show ?thesis
    using u [symmetric] main_fetch_urls [OF cfg u, of two_entities ?E 0, unfolded m] by blast
qed

text \<open>
  C9, amended. Two runs over the same mapping and configuration, in worlds that
  answer alike (the same responses from Home Assistant and the same results from the
  position tool), end alike: the same exit code or exception, the same trace (so the
  same argument vectors for the position tool), the same per-entity outcomes.
\<close>

theorem main_deterministic:
  assumes "same_responses R env1 env2" and "R w1 w2"
  shows "fst (main_on ents env1 environ (start w1)) = fst (main_on ents env2 environ (start w2)) \<and>
         trace (snd (main_on ents env1 environ (start w1))) =
           trace (snd (main_on ents env2 environ (start w2))) \<and>
         (\<forall>hass_url hass_token.
            sync_results env1 hass_url hass_token ents (start w1) =
            sync_results env2 hass_url hass_token ents (start w2))"
proof -
  have st: "same_st R (start w1) (start w2)"
    using assms(2) by (simp add: same_st_def)
  have loop: "agree R (sync_loop env1 u t ents 0 (start w1)) (sync_loop env2 u t ents 0 (start w2))"
    for u t using sync_loop_agree [OF assms(1) st] by blast
  have "agree R (main_on ents env1 environ (start w1)) (main_on ents env2 environ (start w2))"
  proof (cases "environ ''HASS_URL''")
    case None
    then show ?thesis using st by (simp add: main_on_def config_error_def same_st_emit)
  next
    case u: (Some hass_url)
    show ?thesis
    proof (cases "environ ''HASS_TOKEN''")
      case None
      then show ?thesis using st u by (simp add: main_on_def config_error_def same_st_emit)
    next
      case t: (Some hass_token)
      obtain r a where g1: "sync_loop env1 (rstrip CHR ''/'' hass_url) hass_token ents 0 (start w1) = (r, a)"
        by (cases "sync_loop env1 (rstrip CHR ''/'' hass_url) hass_token ents 0 (start w1)")
      obtain r2 b where g2: "sync_loop env2 (rstrip CHR ''/'' hass_url) hass_token ents 0 (start w2) = (r2, b)"
        by (cases "sync_loop env2 (rstrip CHR ''/'' hass_url) hass_token ents 0 (start w2)")
      from loop [of "rstrip CHR ''/'' hass_url" hass_token]
      have eq: "r2 = r" and ab: "same_st R a b" by (simp_all add: g1 g2)
      show ?thesis
        using st ab
        by (simp add: main_on_def u t config_error_def same_st_emit g1 g2 eq split: sum.splits)
    qed
  qed
  then have "fst (main_on ents env1 environ (start w1)) = fst (main_on ents env2 environ (start w2))"
    and "trace (snd (main_on ents env1 environ (start w1))) =
           trace (snd (main_on ents env2 environ (start w2)))"
    by (simp_all add: agree_def same_st_def)
  moreover have "sync_results env1 u t ents (start w1) = sync_results env2 u t ents (start w2)" for u t
    using sync_loop_agree [OF assms(1) st] by blast
  ultimately show ?thesis by blast
qed

theorem main_deterministic_witness:
  "same_responses (\<lambda>w1 w2. True)
     (scripted_env (only ''person.harper'') (exits 0) no_render)
     (stateless_env (only ''person.harper'') (exits 0) no_render) \<and>
   fst (main_on two_entities (scripted_env (only ''person.harper'') (exits 0) no_render)
          (configured ''http://ha/'' ''t'') (start 0)) =
   fst (main_on two_entities (stateless_env (only ''person.harper'') (exits 0) no_render)
          (configured ''http://ha/'' ''t'') (start ())) \<and>
   trace (snd (main_on two_entities (scripted_env (only ''person.harper'') (exits 0) no_render)
          (configured ''http://ha/'' ''t'') (start 0))) =
   trace (snd (main_on two_entities (stateless_env (only ''person.harper'') (exits 0) no_render)
          (configured ''http://ha/'' ''t'') (start ())))"
proof -
  have sr: "same_responses (\<lambda>w1 w2. True)
     (scripted_env (only ''person.harper'') (exits 0) no_render)
     (stateless_env (only ''person.harper'') (exits 0) no_render)"
    by (simp add: same_responses_def stateless_env_def)
  show ?thesis
    using sr main_deterministic [of "\<lambda>w1 w2. True"
        "scripted_env (only ''person.harper'') (exits 0) no_render"
        "stateless_env (only ''person.harper'') (exits 0) no_render"
        0 "()" two_entities "configured ''http://ha/'' ''t''"]
    by simp
qed

text \<open>
  C9 as stated fails: with identical configuration and identical responses from Home
  Assistant, a position tool that exits 0 in one run and 1 in the other gives exit
  codes 0 and 1.
\<close>

theorem main_deterministic_counterexample:
  "requests_get (scripted_env (only ''person.harper'') (exits 0) no_render) =
   requests_get (scripted_env (only ''person.harper'') (exits 1) no_render) \<and>
   fst (main (scripted_env (only ''person.harper'') (exits 0) no_render)
          (configured ''http://ha/'' ''t'') (start 0)) = Inr 0 \<and>
   fst (main (scripted_env (only ''person.harper'') (exits 1) no_render)
          (configured ''http://ha/'' ''t'') (start 0)) = Inr 1"
  by (simp add: run_defs scripted_env_def)

text \<open>
  C10. When the fetch answers 200 with a body that parses to a falsy value,
  \<open>sync_entity\<close> returns \<^verbatim>\<open>False\<close> at once: the only event is the GET itself, so
  nothing is printed and no process is started.
\<close>

theorem sync_entity_falsy_body:
  assumes "requests_get env (world s) (hass_url @ ''/api/states/'' @ entity_id)
             (''Bearer '' @ hass_token) = (Inr resp, w')"
      and "status_code resp = 200"
      and "json resp = Inr v"
      and "\<not> truthy v"
  shows "sync_entity env hass_url hass_token entity_id position_name s =
           (Inr False,
            (emit (HttpGet (hass_url @ ''/api/states/'' @ entity_id) (''Bearer '' @ hass_token)) s)
              \<lparr>world := w'\<rparr>)"
  using assms
  by (simp add: sync_entity_def get_entity_state_def)

theorem sync_entity_falsy_body_witness:
  "\<not> truthy (PDict []) \<and>
   sync_entity (scripted_env (\<lambda>url. ok_body (PDict [])) (\<lambda>argv. Inr (0, [])) (\<lambda>v. []))
     ''http://ha'' ''t'' ''person.harper'' ''harper'' (start 0) =
     (Inr False,
      \<lparr>world = 1, trace = [HttpGet ''http://ha/api/states/person.harper'' ''Bearer t'']\<rparr>)"
  using sync_entity_falsy_body
    [of "scripted_env (\<lambda>url. ok_body (PDict [])) (\<lambda>argv. Inr (0, [])) (\<lambda>v. [])"
        "start 0" "''http://ha''" "''person.harper''" "''t''"
        "\<lparr>status_code = 200, json = Inr (PDict [])\<rparr>" 1 "PDict []" "''harper''"]
  by (simp add: ok_body_def start_def emit_def)

end
